theory Spec2Isabelle
  imports Main "HOL-Library.Word"
begin

section \<open>Linear-algebra adapter: classification of LAPACK return codes\<close>

text \<open>
  \<^verbatim>\<open>numba/targets/linalg.py\<close>, \<^verbatim>\<open>_inv_err_handler\<close>.  The argument is the
  \<^verbatim>\<open>types.intc\<close> return value of \<^verbatim>\<open>numba_xxgetrf\<close> / \<^verbatim>\<open>numba_ez_xxgetri\<close>, a
  32-bit signed C integer.  \<^verbatim>\<open>fatal_error_func\<close> is the external function
  \<^verbatim>\<open>numba_fatal_error\<close>, which ends the process; the \<^verbatim>\<open>assert 0\<close> behind it is
  never reached.
\<close>

datatype linalg_outcome =
    Returned
  | ProcessFatal
  | LinAlgError string

definition inv_err_handler :: "32 word \<Rightarrow> linalg_outcome" where
  "inv_err_handler r =
     (if r \<noteq> 0 then
        (if sint r < 0 then ProcessFatal
         else if sint r > 0 then LinAlgError ''Matrix is singular and cannot be inverted.''
         else Returned)
      else Returned)"

section \<open>The untyped IR\<close>

text \<open>
  The data model of \<^verbatim>\<open>numba/untyped_passes.py\<close>: block labels are Python integers,
  variables are identified by name (\<^verbatim>\<open>ir.Var\<close> equality ignores scope and location),
  a dictionary is an association list with unique keys in insertion order.
\<close>

type_synonym label = int
type_synonym vname = string

datatype pyobj = PyRange | PyLen | PyLiteralUnroll | PyObj nat

datatype pyconst = PInt int | PStr string | PNone | PRef pyobj

text \<open>
  Modelled from the spec: the container types of \<^verbatim>\<open>numba.types\<close> (not under src/), "a
  fixed-length heterogeneous or homogeneous aggregate type, represented as an ordered
  sequence of per-slot element types".  \<^verbatim>\<open>Literal\<close> carries its \<^verbatim>\<open>literal_value\<close>.
\<close>

datatype nty =
    Tuple "nty list"
  | UniTuple nty nat
  | Literal pyconst
  | Prim string

fun accepted_types :: "nty \<Rightarrow> bool" where
  "accepted_types (Tuple ts) = True"
| "accepted_types (UniTuple t n) = True"
| "accepted_types (Literal c) = False"
| "accepted_types (Prim s) = False"

fun is_Literal :: "nty \<Rightarrow> bool" where
  "is_Literal (Literal c) = True"
| "is_Literal (Tuple ts) = False"
| "is_Literal (UniTuple t n) = False"
| "is_Literal (Prim s) = False"

text \<open>Iterating a tuple type yields its per-slot element types, left to right.\<close>

fun iter_types :: "nty \<Rightarrow> nty list" where
  "iter_types (Tuple ts) = ts"
| "iter_types (UniTuple t n) = replicate n t"
| "iter_types (Literal c) = []"
| "iter_types (Prim s) = []"

subsection \<open>Dictionaries\<close>

type_synonym ('k, 'v) dict = "('k \<times> 'v) list"

definition dict_keys :: "('k, 'v) dict \<Rightarrow> 'k list" where
  "dict_keys d = map fst d"

definition dict_get :: "('k, 'v) dict \<Rightarrow> 'k \<Rightarrow> 'v option" where
  "dict_get d k = map_of d k"

text \<open>\<^verbatim>\<open>d[k] = v\<close>: an existing key keeps its position, a new key goes last.\<close>

fun dict_set :: "('k, 'v) dict \<Rightarrow> 'k \<Rightarrow> 'v \<Rightarrow> ('k, 'v) dict" where
  "dict_set [] k v = [(k, v)]"
| "dict_set ((k', v') # d) k v =
     (if k' = k then (k', v) # d else (k', v') # dict_set d k v)"

definition dict_pop :: "('k, 'v) dict \<Rightarrow> 'k \<Rightarrow> ('k, 'v) dict" where
  "dict_pop d k = filter (\<lambda>kv. fst kv \<noteq> k) d"

subsection \<open>Switch data\<close>

text \<open>
  \<^verbatim>\<open>MixedContainerUnroller.analyse_tuple\<close>:
  \<^verbatim>\<open>d = defaultdict(list); for i, ty in enumerate(tup): d[ty].append(i)\<close>.
\<close>

definition defaultdict_append :: "('k, 'v list) dict \<Rightarrow> 'k \<Rightarrow> 'v \<Rightarrow> ('k, 'v list) dict" where
  "defaultdict_append d k v =
     (case dict_get d k of
        None \<Rightarrow> dict_set d k [v]
      | Some vs \<Rightarrow> dict_set d k (vs @ [v]))"

definition analyse_types :: "'t list \<Rightarrow> ('t, nat list) dict" where
  "analyse_types tys = fold (\<lambda>(i, ty) d. defaultdict_append d ty i) (enumerate 0 tys) []"

definition analyse_tuple :: "nty \<Rightarrow> (nty, nat list) dict" where
  "analyse_tuple tup = analyse_types (iter_types tup)"

datatype error =
    UnsupportedError string nat
  | CompilerError string nat
  | KeyError
  | IndexError
  | TypeError
  | AttributeError
  | AssertionError
  | ValueError
  | Diverges

text \<open>
  \<^verbatim>\<open>MixedContainerUnroller.gen_switch\<close> builds the text of
  \<^verbatim>\<open>def foo():
      if PLACEHOLDER_INDEX in (<data[keys[0]]>,): SENTINEL = None
      elif PLACEHOLDER_INDEX in (<data[keys[i]]>,): SENTINEL = None    (i = 1 .. len(keys)-1)
      else: raise RuntimeError("Unreachable")\<close>
  The generated function is kept as its syntax tree: the index tuple of the \<^verbatim>\<open>if\<close> and
  those of the \<^verbatim>\<open>elif\<close>s, in order.  \<^verbatim>\<open>keys[0]\<close> on an empty dictionary raises
  \<^verbatim>\<open>IndexError\<close>.
\<close>

record switch_src =
  if_indices :: "nat list"
  elif_indices :: "nat list list"

definition gen_switch_src :: "('t, nat list) dict \<Rightarrow> error + switch_src" where
  "gen_switch_src data =
     (let keys = dict_keys data;
          elifs = map (\<lambda>i. the (dict_get data (keys ! i))) [1..<length keys]
      in if keys = [] then Inl IndexError
         else Inr \<lparr>if_indices = the (dict_get data (keys ! 0)), elif_indices = elifs\<rparr>)"

text \<open>
  Running the generated function at an index: the number of the first branch whose tuple
  holds the index (0 for the \<^verbatim>\<open>if\<close>), or \<open>None\<close> when control reaches the \<^verbatim>\<open>else\<close>.
\<close>

fun first_branch :: "nat list list \<Rightarrow> nat \<Rightarrow> nat option" where
  "first_branch [] idx = None"
| "first_branch (b # bs) idx =
     (if idx \<in> set b then Some 0 else map_option Suc (first_branch bs idx))"

definition switch_branches :: "switch_src \<Rightarrow> nat list list" where
  "switch_branches s = if_indices s # elif_indices s"

definition run_switch :: "switch_src \<Rightarrow> nat \<Rightarrow> nat option" where
  "run_switch s idx = first_branch (switch_branches s) idx"

subsection \<open>Expressions, statements, blocks\<close>

text \<open>
  \<^verbatim>\<open>ir.Expr\<close> by its \<^verbatim>\<open>op\<close>, with the attributes the passes read.  \<open>OtherExpr\<close> is an
  expression with any other \<^verbatim>\<open>op\<close>: its \<^verbatim>\<open>value\<close> attribute when it has one, and its
  remaining operand variables.
\<close>

datatype expr =
    Call vname "vname list"
  | Getiter vname
  | Iternext vname
  | PairFirst vname
  | PairSecond vname
  | Getitem vname vname
  | TypedGetitem vname nty vname
  | OtherExpr "vname option" "vname list"

text \<open>
  What an assignment's right-hand side, a definition or an attribute can be: the IR nodes
  \<^verbatim>\<open>ir.Var\<close>, \<^verbatim>\<open>ir.Expr\<close>, \<^verbatim>\<open>ir.Global\<close> (name and the Python object it is bound to),
  \<^verbatim>\<open>ir.Const\<close>, \<^verbatim>\<open>ir.Arg\<close>, and \<open>Py\<close>, a plain Python object that is not an IR node (the
  \<^verbatim>\<open>.value\<close> of a \<^verbatim>\<open>Global\<close> or a \<^verbatim>\<open>Const\<close>).
\<close>

datatype irval =
    Var vname
  | Expr expr
  | Global string pyobj
  | Const pyconst
  | Arg string nat
  | Py pyconst

datatype stmt =
    Assign irval vname
  | Jump label
  | Branch vname label label
  | Return vname
  | Raise vname
  | Del vname

record block =
  body :: "stmt list"
  loc :: nat

type_synonym blocks = "(label, block) dict"

text \<open>
  A natural loop as \<^verbatim>\<open>cfg.loops()\<close> gives it.  \<^verbatim>\<open>body\<close>, \<^verbatim>\<open>entries\<close> and \<^verbatim>\<open>exits\<close> are
  Python sets; they are kept as duplicate-free lists in the order the set iterates.
\<close>

record loop =
  header :: label
  loop_body :: "label list"
  entries :: "label list"
  exits :: "label list"

record func_ir =
  blocks :: blocks
  definitions :: "(vname, irval list) dict"
  livemap :: "(label, vname list) dict"

text \<open>
  The compilation state the passes share.  \<open>unique_var_count\<close> is the module-level
  counter behind \<^verbatim>\<open>mk_unique_var\<close>.
\<close>

record state =
  func_ir :: func_ir
  typemap :: "(vname, nty) dict option"
  return_type :: "nty option"
  calltypes :: "(irval, nty) dict option"
  unique_var_count :: nat

fun op :: "expr \<Rightarrow> string" where
  "op (Call f as) = ''call''"
| "op (Getiter v) = ''getiter''"
| "op (Iternext v) = ''iternext''"
| "op (PairFirst v) = ''pair_first''"
| "op (PairSecond v) = ''pair_second''"
| "op (Getitem v i) = ''getitem''"
| "op (TypedGetitem v t i) = ''typed_getitem''"
| "op (OtherExpr v as) = ''other''"

text \<open>\<^verbatim>\<open>e.value\<close> of an expression: the operand variable, where the operation has one.\<close>

fun expr_value :: "expr \<Rightarrow> vname option" where
  "expr_value (Call f as) = None"
| "expr_value (Getiter v) = Some v"
| "expr_value (Iternext v) = Some v"
| "expr_value (PairFirst v) = Some v"
| "expr_value (PairSecond v) = Some v"
| "expr_value (Getitem v i) = Some v"
| "expr_value (TypedGetitem v t i) = Some v"
| "expr_value (OtherExpr v as) = v"

text \<open>\<^verbatim>\<open>x.value\<close>; an object without the attribute raises \<^verbatim>\<open>AttributeError\<close>.\<close>

fun value_attr :: "irval \<Rightarrow> error + irval" where
  "value_attr (Expr e) = (case expr_value e of None \<Rightarrow> Inl AttributeError | Some v \<Rightarrow> Inr (Var v))"
| "value_attr (Global n obj) = Inr (Py (PRef obj))"
| "value_attr (Const c) = Inr (Py c)"
| "value_attr (Var v) = Inl AttributeError"
| "value_attr (Arg n i) = Inl AttributeError"
| "value_attr (Py c) = Inl AttributeError"

text \<open>\<^verbatim>\<open>getattr(x, 'func', None)\<close> and \<^verbatim>\<open>getattr(x, 'args', False)\<close>: only a call has them.\<close>

fun func_attr :: "irval \<Rightarrow> vname option" where
  "func_attr (Expr (Call f as)) = Some f"
| "func_attr x = None"

fun args_attr :: "irval \<Rightarrow> vname list option" where
  "args_attr (Expr (Call f as)) = Some as"
| "args_attr x = None"

text \<open>
  \<^verbatim>\<open>ir.Block.find_exprs(op)\<close>: the right-hand sides of the block's assignments that are
  expressions with that \<^verbatim>\<open>op\<close>, in statement order.
\<close>

fun find_exprs :: "string \<Rightarrow> stmt list \<Rightarrow> expr list" where
  "find_exprs opname [] = []"
| "find_exprs opname (Assign (Expr e) t # ss) =
     (if op e = opname then e # find_exprs opname ss else find_exprs opname ss)"
| "find_exprs opname (s # ss) = find_exprs opname ss"

text \<open>\<^verbatim>\<open>func_ir.blocks[lbl]\<close>, \<^verbatim>\<open>xs[0]\<close>.\<close>

definition get_block :: "func_ir \<Rightarrow> label \<Rightarrow> error + block" where
  "get_block ir lbl = (case dict_get (blocks ir) lbl of None \<Rightarrow> Inl KeyError | Some b \<Rightarrow> Inr b)"

fun first_item :: "'a list \<Rightarrow> error + 'a" where
  "first_item [] = Inl IndexError"
| "first_item (x # xs) = Inr x"

subsection \<open>Collaborators outside this file\<close>

text \<open>
  The passes call into \<^verbatim>\<open>numba.analysis\<close>, \<^verbatim>\<open>numba.ir\<close>, \<^verbatim>\<open>numba.ir_utils\<close>,
  \<^verbatim>\<open>numba.postproc\<close>, \<^verbatim>\<open>numba.inline_closurecall\<close> and \<^verbatim>\<open>numba.types\<close>, none of which is
  part of the sources at hand.  They are parameters of the model:
  \<^item> \<open>cfg_loops\<close>: \<^verbatim>\<open>compute_cfg_from_blocks(blocks).loops()\<close>, header label to loop;
  \<^item> \<open>cfg_successors\<close>: the labels \<^verbatim>\<open>cfg.successors(lbl)\<close> yields;
  \<^item> \<open>get_definition\<close>: \<^verbatim>\<open>func_ir.get_definition\<close>, which chases a variable through the
    definition table and raises when a name has no or several definitions;
  \<^item> \<open>get_assignee\<close>: \<^verbatim>\<open>func_ir.get_assignee(rhs, label)\<close>;
  \<^item> \<open>simplify_CFG\<close>, \<open>build_definitions\<close>, \<open>post_proc\<close> (\<^verbatim>\<open>PostProcessor(func_ir).run()\<close>);
  \<^item> \<open>compute_use_defs\<close>: per label, the used and the defined variables;
  \<^item> \<open>compile_switch\<close>: \<^verbatim>\<open>compile_to_numba_ir\<close> on the generated switch function;
  \<^item> \<open>inline_get_range\<close>: \<^verbatim>\<open>inline_closure_call\<close> of \<^verbatim>\<open>get_range\<close> at a statement of a block;
  \<^item> \<open>unique_name\<close>: the name \<^verbatim>\<open>mk_unique_var(prefix)\<close> returns at a counter value;
  \<^item> \<open>type_truthy\<close>: the truth value of a type object.
\<close>

record helpers =
  cfg_loops :: "blocks \<Rightarrow> (label, loop) dict"
  cfg_successors :: "blocks \<Rightarrow> label \<Rightarrow> label list"
  get_definition :: "func_ir \<Rightarrow> irval \<Rightarrow> error + irval"
  get_assignee :: "func_ir \<Rightarrow> irval \<Rightarrow> label \<Rightarrow> error + vname"
  simplify_CFG :: "blocks \<Rightarrow> blocks"
  build_definitions :: "blocks \<Rightarrow> (vname, irval list) dict"
  post_proc :: "func_ir \<Rightarrow> func_ir"
  compute_use_defs :: "blocks \<Rightarrow> label \<Rightarrow> vname list \<times> vname list"
  compile_switch :: "switch_src \<Rightarrow> blocks"
  inline_get_range :: "state \<Rightarrow> label \<Rightarrow> nat \<Rightarrow> error + state"
  unique_name :: "vname \<Rightarrow> nat \<Rightarrow> vname"
  type_truthy :: "nty \<Rightarrow> bool"

text \<open>
  Modelled from the spec: \<^verbatim>\<open>FunctionIR.get_definition\<close> of \<^verbatim>\<open>numba/ir.py\<close> (not under
  src/), "chasing assignments through the IR": a variable (or a name) is looked up in the
  definition table and its single definition is chased in turn; anything else is
  returned as it is; a name with no or with several definitions raises \<^verbatim>\<open>KeyError\<close>.  The
  source loops \<^verbatim>\<open>while True\<close>; a chase longer than the table has met a name twice and never
  ends, which is the value \<open>Diverges\<close>.
\<close>

fun name_of :: "irval \<Rightarrow> vname option" where
  "name_of (Var v) = Some v"
| "name_of (Py (PStr s)) = Some s"
| "name_of x = None"

fun chase_definition :: "nat \<Rightarrow> (vname, irval list) dict \<Rightarrow> irval \<Rightarrow> error + irval" where
  "chase_definition n defs x =
     (case name_of x of
        None \<Rightarrow> Inr x
      | Some name \<Rightarrow>
          (case n of
             0 \<Rightarrow> Inl Diverges
           | Suc m \<Rightarrow>
               (case dict_get defs name of
                  Some [d] \<Rightarrow> chase_definition m defs d
                | _ \<Rightarrow> Inl KeyError)))"

definition table_get_definition :: "func_ir \<Rightarrow> irval \<Rightarrow> error + irval" where
  "table_get_definition ir x = chase_definition (Suc (length (definitions ir))) (definitions ir) x"

subsection \<open>Loop canonicalisation: which loops are accepted\<close>

text \<open>
  \<^verbatim>\<open>IterLoopCanonicalization.assess_loop\<close>.  The result is used only as a truth value
  (\<^verbatim>\<open>if stat:\<close>), so falling off the end (\<^verbatim>\<open>None\<close>) is \<open>False\<close>.  \<^verbatim>\<open>if partial_typemap:\<close>
  is Python truthiness: \<^verbatim>\<open>None\<close> and the empty dictionary both take the \<^verbatim>\<open>else\<close> branch.
  Only the first \<^verbatim>\<open>get_definition\<close> sits in a \<^verbatim>\<open>try\<close>; the others raise.
\<close>

definition dict_truthy :: "('k, 'v) dict option \<Rightarrow> bool" where
  "dict_truthy d = (case d of None \<Rightarrow> False | Some kvs \<Rightarrow> kvs \<noteq> [])"

definition accepted_calls :: "pyobj list" where
  "accepted_calls = [PyLiteralUnroll]"

definition assess_typed :: "helpers \<Rightarrow> loop \<Rightarrow> func_ir \<Rightarrow> (vname, nty) dict \<Rightarrow> vname \<Rightarrow> error + bool" where
  "assess_typed h lp ir tm phi_value =
     (case get_definition h ir (Var phi_value) of Inl e \<Rightarrow> Inl e | Inr phi_val_defn \<Rightarrow>
      (case phi_val_defn of
         Expr (Call f0 as0) \<Rightarrow>
           (case get_definition h ir phi_val_defn of Inl e \<Rightarrow> Inl e | Inr call \<Rightarrow>
            (case call of
               Expr (Call f as) \<Rightarrow>
                 if length as \<noteq> 1 then Inr False
                 else
                   (case get_definition h ir (Var f) of Inl e \<Rightarrow> Inl e | Inr func_var \<Rightarrow>
                    (case get_definition h ir func_var of Inl e \<Rightarrow> Inl e | Inr func \<Rightarrow>
                     (case func of
                        Global n obj \<Rightarrow>
                          if obj \<notin> set accepted_calls then Inr False
                          else
                            (case dict_get tm (as ! 0) of
                               None \<Rightarrow> Inr False
                             | Some ty \<Rightarrow>
                                 if type_truthy h ty \<and> accepted_types ty
                                 then Inr (length (entries lp) = 1)
                                 else Inr False)
                      | _ \<Rightarrow> Inr False)))
             | _ \<Rightarrow> Inl AttributeError))
       | _ \<Rightarrow> Inr False))"

definition assess_loop :: "helpers \<Rightarrow> loop \<Rightarrow> func_ir \<Rightarrow> (vname, nty) dict option \<Rightarrow> error + bool" where
  "assess_loop h lp ir partial_typemap =
     (case get_block ir (header lp) of Inl e \<Rightarrow> Inl e | Inr hb \<Rightarrow>
      (case find_exprs ''iternext'' (body hb) of
         [Iternext v] \<Rightarrow>
           (case get_definition h ir (Var v) of
              Inl e \<Rightarrow> Inr False
            | Inr phi \<Rightarrow>
               (case phi of
                  Expr (Getiter phi_value) \<Rightarrow>
                    if dict_truthy partial_typemap
                    then assess_typed h lp ir (the partial_typemap) phi_value
                    else Inr (length (entries lp) = 1)
                | _ \<Rightarrow> Inr False))
       | _ \<Rightarrow> Inr False))"

section \<open>The mixed-container unroller\<close>

subsection \<open>Relabelling\<close>

text \<open>
  \<^verbatim>\<open>add_offset_to_labels_w_ignore\<close>: every block label is shifted; the targets of a
  block's last statement are shifted unless they are in the ignore list.
\<close>

fun offset_terminator :: "int \<Rightarrow> label list \<Rightarrow> stmt \<Rightarrow> stmt" where
  "offset_terminator offset ignore (Jump t) =
     (if t \<notin> set ignore then Jump (t + offset) else Jump t)"
| "offset_terminator offset ignore (Branch c t f) =
     Branch c (if t \<notin> set ignore then t + offset else t)
              (if f \<notin> set ignore then f + offset else f)"
| "offset_terminator offset ignore s = s"

definition offset_block :: "int \<Rightarrow> label list \<Rightarrow> block \<Rightarrow> block" where
  "offset_block offset ignore b =
     (if body b = [] then b
      else b\<lparr>body := butlast (body b) @ [offset_terminator offset ignore (last (body b))]\<rparr>)"

definition add_offset_to_labels_w_ignore :: "blocks \<Rightarrow> int \<Rightarrow> label list \<Rightarrow> blocks" where
  "add_offset_to_labels_w_ignore blks offset ignore =
     fold (\<lambda>(l, b) new_blocks. dict_set new_blocks (l + offset) (offset_block offset ignore b))
       blks []"

subsection \<open>The switch table as IR\<close>

text \<open>
  \<^verbatim>\<open>gen_switch\<close>: the generated function is compiled to IR, then every assignment of the
  global \<^verbatim>\<open>PLACEHOLDER_INDEX\<close> gets the index definition as its value.
\<close>

fun fill_placeholder :: "irval \<Rightarrow> stmt \<Rightarrow> stmt" where
  "fill_placeholder index (Assign (Global n obj) t) =
     (if n = ''PLACEHOLDER_INDEX'' then Assign index t else Assign (Global n obj) t)"
| "fill_placeholder index s = s"

definition gen_switch :: "helpers \<Rightarrow> (nty, nat list) dict \<Rightarrow> irval \<Rightarrow> error + blocks" where
  "gen_switch h data index =
     (case gen_switch_src data of
        Inl e \<Rightarrow> Inl e
      | Inr src \<Rightarrow>
          Inr (map (\<lambda>(lbl, blk). (lbl, blk\<lparr>body := map (fill_placeholder index) (body blk)\<rparr>))
                 (compile_switch h src)))"

subsection \<open>Variables of a block map and their renaming\<close>

fun expr_vars :: "expr \<Rightarrow> vname list" where
  "expr_vars (Call f as) = f # as"
| "expr_vars (Getiter v) = [v]"
| "expr_vars (Iternext v) = [v]"
| "expr_vars (PairFirst v) = [v]"
| "expr_vars (PairSecond v) = [v]"
| "expr_vars (Getitem v i) = [v, i]"
| "expr_vars (TypedGetitem v t i) = [v, i]"
| "expr_vars (OtherExpr v as) = (case v of None \<Rightarrow> as | Some x \<Rightarrow> x # as)"

fun irval_vars :: "irval \<Rightarrow> vname list" where
  "irval_vars (Var v) = [v]"
| "irval_vars (Expr e) = expr_vars e"
| "irval_vars x = []"

fun stmt_vars :: "stmt \<Rightarrow> vname list" where
  "stmt_vars (Assign x t) = t # irval_vars x"
| "stmt_vars (Jump l) = []"
| "stmt_vars (Branch c t f) = [c]"
| "stmt_vars (Return v) = [v]"
| "stmt_vars (Raise v) = [v]"
| "stmt_vars (Del v) = [v]"

definition blocks_vars :: "blocks \<Rightarrow> vname list" where
  "blocks_vars blks = concat (map (\<lambda>(l, b). concat (map stmt_vars (body b))) blks)"

text \<open>
  Modelled from the spec: \<^verbatim>\<open>get_name_var_table\<close> and \<^verbatim>\<open>replace_var_names\<close> of
  \<^verbatim>\<open>numba/ir_utils.py\<close> (not under src/).  The first maps the name of every variable that
  occurs in the blocks to the variable, so its keys are those names in the order they
  are first met; the second renames every occurrence of a key to its value ("rename
  every variable ... to a fresh unique name").
\<close>

definition get_name_var_table :: "blocks \<Rightarrow> vname list" where
  "get_name_var_table blks = rev (remdups (rev (blocks_vars blks)))"

definition rename_var :: "(vname, vname) dict \<Rightarrow> vname \<Rightarrow> vname" where
  "rename_var namedict v = (case dict_get namedict v of None \<Rightarrow> v | Some w \<Rightarrow> w)"

fun rename_expr :: "(vname \<Rightarrow> vname) \<Rightarrow> expr \<Rightarrow> expr" where
  "rename_expr r (Call f as) = Call (r f) (map r as)"
| "rename_expr r (Getiter v) = Getiter (r v)"
| "rename_expr r (Iternext v) = Iternext (r v)"
| "rename_expr r (PairFirst v) = PairFirst (r v)"
| "rename_expr r (PairSecond v) = PairSecond (r v)"
| "rename_expr r (Getitem v i) = Getitem (r v) (r i)"
| "rename_expr r (TypedGetitem v t i) = TypedGetitem (r v) t (r i)"
| "rename_expr r (OtherExpr v as) = OtherExpr (map_option r v) (map r as)"

fun rename_irval :: "(vname \<Rightarrow> vname) \<Rightarrow> irval \<Rightarrow> irval" where
  "rename_irval r (Var v) = Var (r v)"
| "rename_irval r (Expr e) = Expr (rename_expr r e)"
| "rename_irval r x = x"

fun rename_stmt :: "(vname \<Rightarrow> vname) \<Rightarrow> stmt \<Rightarrow> stmt" where
  "rename_stmt r (Assign x t) = Assign (rename_irval r x) (r t)"
| "rename_stmt r (Jump l) = Jump l"
| "rename_stmt r (Branch c t f) = Branch (r c) t f"
| "rename_stmt r (Return v) = Return (r v)"
| "rename_stmt r (Raise v) = Raise (r v)"
| "rename_stmt r (Del v) = Del (r v)"

definition replace_var_names :: "blocks \<Rightarrow> (vname, vname) dict \<Rightarrow> blocks" where
  "replace_var_names blks namedict =
     map (\<lambda>(l, b). (l, b\<lparr>body := map (rename_stmt (rename_var namedict)) (body b)\<rparr>)) blks"

subsection \<open>Injecting the loop body into the switch\<close>

text \<open>\<^verbatim>\<open>"SENTINEL" in name\<close>: the substring test.\<close>

fun contains :: "string \<Rightarrow> string \<Rightarrow> bool" where
  "contains sub [] = (sub = [])"
| "contains sub (c # cs) = (take (length sub) (c # cs) = sub \<or> contains sub cs)"

fun is_sentinel :: "stmt \<Rightarrow> bool" where
  "is_sentinel (Assign x t) = contains ''SENTINEL'' t"
| "is_sentinel s = False"

text \<open>
  The first loop of \<^verbatim>\<open>inject_loop_body\<close>: the labels of the blocks that assign a sentinel,
  and the targets of their last statements.  A sentinel block that does not end in a
  jump has no label to give (\<^verbatim>\<open>blk.body[-1].target\<close>); that is an error here.
\<close>

fun jump_target :: "stmt \<Rightarrow> error + label" where
  "jump_target (Jump t) = Inr t"
| "jump_target s = Inl AttributeError"

fun find_sentinels :: "blocks \<Rightarrow> error + (label list \<times> label list)" where
  "find_sentinels [] = Inr ([], [])"
| "find_sentinels ((lbl, blk) # rest) =
     (case find_sentinels rest of
        Inl e \<Rightarrow> (if list_ex is_sentinel (body blk)
                  then (case jump_target (last (body blk)) of Inl e' \<Rightarrow> Inl e' | Inr t \<Rightarrow> Inl e)
                  else Inl e)
      | Inr (sentinel_blocks, sentinel_exits) \<Rightarrow>
          if list_ex is_sentinel (body blk)
          then (case jump_target (last (body blk)) of
                  Inl e \<Rightarrow> Inl e
                | Inr t \<Rightarrow> Inr (lbl # sentinel_blocks, List.insert t sentinel_exits))
          else Inr (sentinel_blocks, sentinel_exits))"

text \<open>The jump and branch targets of the loop blocks that are not loop block labels.\<close>

fun stmt_targets :: "stmt \<Rightarrow> label list" where
  "stmt_targets (Jump t) = [t]"
| "stmt_targets (Branch c t f) = [t, f]"
| "stmt_targets s = []"

definition non_local_targets :: "blocks \<Rightarrow> label list" where
  "non_local_targets loop_blocks =
     remdups (filter (\<lambda>t. t \<notin> set (dict_keys loop_blocks))
       (concat (map (\<lambda>(l, b). concat (map stmt_targets (body b))) loop_blocks)))"

text \<open>
  "Fix the typed_getitem locations": under a literal branch type the access becomes the
  assignment of the constant to a new variable \<^verbatim>\<open>mk_unique_var("branch_const")\<close> and a
  copy of it to the target, and the new name joins \<^verbatim>\<open>dont_replace\<close>; under any other
  branch type the placeholder type becomes the branch type.  The result is the new
  statements, the new constant names and the counter.
\<close>

fun literal_value :: "nty \<Rightarrow> pyconst" where
  "literal_value (Literal c) = c"
| "literal_value t = PNone"

fun fix_typed_getitems ::
  "helpers \<Rightarrow> nty \<Rightarrow> stmt list \<Rightarrow> nat \<Rightarrow> stmt list \<times> vname list \<times> nat" where
  "fix_typed_getitems h branch_ty [] n = ([], [], n)"
| "fix_typed_getitems h branch_ty (Assign (Expr (TypedGetitem v d i)) t # ss) n =
     (if is_Literal branch_ty then
        (let new_const_name = unique_name h ''branch_const'' n;
             (ss', names, n') = fix_typed_getitems h branch_ty ss (Suc n)
         in (Assign (Const (literal_value branch_ty)) new_const_name
               # Assign (Var new_const_name) t # ss',
             new_const_name # names, n'))
      else
        (let (ss', names, n') = fix_typed_getitems h branch_ty ss n
         in (Assign (Expr (TypedGetitem v branch_ty i)) t # ss', names, n')))"
| "fix_typed_getitems h branch_ty (s # ss) n =
     (let (ss', names, n') = fix_typed_getitems h branch_ty ss n in (s # ss', names, n'))"

fun fix_blocks ::
  "helpers \<Rightarrow> nty \<Rightarrow> blocks \<Rightarrow> nat \<Rightarrow> blocks \<times> vname list \<times> nat" where
  "fix_blocks h branch_ty [] n = ([], [], n)"
| "fix_blocks h branch_ty ((l, b) # rest) n =
     (let (ss, names, n') = fix_typed_getitems h branch_ty (body b) n;
          (rest', names', n'') = fix_blocks h branch_ty rest n'
      in ((l, b\<lparr>body := ss\<rparr>) # rest', names @ names', n''))"

text \<open>
  "Rename": every name of the variable table that is not in \<^verbatim>\<open>dont_replace\<close> gets
  \<^verbatim>\<open>mk_unique_var(name)\<close>, each call taking the next counter value.
\<close>

definition new_var_dict :: "helpers \<Rightarrow> vname list \<Rightarrow> blocks \<Rightarrow> nat \<Rightarrow> (vname, vname) dict" where
  "new_var_dict h dont_replace loop_blocks n =
     (let var_table = filter (\<lambda>name. name \<notin> set dont_replace) (get_name_var_table loop_blocks)
      in map (\<lambda>(k, name). (name, unique_name h name k)) (enumerate n var_table))"

definition max_label :: "blocks \<Rightarrow> error + label" where
  "max_label blks = (if blks = [] then Inl ValueError else Inr (Max (set (dict_keys blks))))"

definition min_label :: "blocks \<Rightarrow> error + label" where
  "min_label blks = (if blks = [] then Inl ValueError else Inr (Min (set (dict_keys blks))))"

text \<open>
  One turn of the loop over \<^verbatim>\<open>zip(sentinel_blocks, switch_data.keys())\<close>.  The state that
  turns share is the switch blocks, \<^verbatim>\<open>dont_replace\<close> and the counter; what a turn made is
  recorded as well: the copy before renaming, its renaming and the copy after it.
\<close>

record body_copy =
  before_rename :: blocks
  renaming :: "(vname, vname) dict"
  after_rename :: blocks

record inject_state =
  switch_blocks :: blocks
  dont_replace :: "vname list"
  counter :: nat
  copies :: "body_copy list"

definition inject_branch ::
  "helpers \<Rightarrow> blocks \<Rightarrow> label list \<Rightarrow> label \<times> nty \<Rightarrow> inject_state \<Rightarrow> error + inject_state" where
  "inject_branch h loop_ir_blocks ignore_set lbl_ty s =
     (case max_label (switch_blocks s) of Inl e \<Rightarrow> Inl e | Inr max_lbl \<Rightarrow>
      (let loop_blocks = add_offset_to_labels_w_ignore loop_ir_blocks (max_lbl + 1) ignore_set in
       (case min_label loop_blocks of Inl e \<Rightarrow> Inl e | Inr loop_start_lbl \<Rightarrow>
        (let (fixed, names, n) = fix_blocks h (snd lbl_ty) loop_blocks (counter s);
             dont = dont_replace s @ names;
             nvd = new_var_dict h dont fixed n;
             renamed = replace_var_names fixed nvd;
             sw = dict_set (switch_blocks s) (fst lbl_ty) (the (dict_get renamed loop_start_lbl));
             remaining_keys = filter (\<lambda>k. k \<noteq> loop_start_lbl) (dict_keys renamed);
             sw' = fold (\<lambda>k d. dict_set d k (the (dict_get renamed k))) remaining_keys sw
         in Inr \<lparr>switch_blocks = sw', dont_replace = dont, counter = n + length nvd,
                 copies = copies s @
                   [\<lparr>before_rename = fixed, renaming = nvd, after_rename = renamed\<rparr>]\<rparr>))))"

fun inject_branches ::
  "helpers \<Rightarrow> blocks \<Rightarrow> label list \<Rightarrow> (label \<times> nty) list \<Rightarrow> inject_state \<Rightarrow> error + inject_state" where
  "inject_branches h loop_ir_blocks ignore_set [] s = Inr s"
| "inject_branches h loop_ir_blocks ignore_set (lbl_ty # rest) s =
     (case inject_branch h loop_ir_blocks ignore_set lbl_ty s of
        Inl e \<Rightarrow> Inl e
      | Inr s' \<Rightarrow> inject_branches h loop_ir_blocks ignore_set rest s')"

definition inject_loop_body ::
  "helpers \<Rightarrow> blocks \<Rightarrow> blocks \<Rightarrow> label \<Rightarrow> vname list \<Rightarrow> (nty, nat list) dict \<Rightarrow> nat \<Rightarrow>
     error + inject_state" where
  "inject_loop_body h switch_ir loop_ir_blocks caller_max_label dont switch_data n =
     (case find_sentinels switch_ir of Inl e \<Rightarrow> Inl e | Inr (sentinel_blocks, sentinel_exits) \<Rightarrow>
      if length sentinel_exits \<noteq> 1 then Inl AssertionError
      else if dict_get switch_ir (hd sentinel_exits) = None then Inl KeyError
      else
        (let sw = dict_pop switch_ir (hd sentinel_exits);
             ignore_set = non_local_targets loop_ir_blocks
         in if length sentinel_blocks \<noteq> length switch_data then Inl AssertionError
            else
              (case inject_branches h loop_ir_blocks ignore_set
                      (zip sentinel_blocks (dict_keys switch_data))
                      \<lparr>switch_blocks = sw, dont_replace = dont, counter = n, copies = []\<rparr> of
                 Inl e \<Rightarrow> Inl e
               | Inr s \<Rightarrow>
                   Inr (s\<lparr>switch_blocks :=
                          add_offset_to_labels_w_ignore (switch_blocks s) (caller_max_label + 1)
                            ignore_set\<rparr>))))"

subsection \<open>Finding the loops to unroll\<close>

text \<open>
  Step 0 of \<^verbatim>\<open>apply_transform\<close>.  The test of one statement of the loop body: it is a
  \<^verbatim>\<open>getitem\<close> on the unrolled variable itself, or on a variable whose definition has it as
  first argument, and the variable's type in the type map is a tuple type.  \<^verbatim>\<open>True\<close> is
  "this is the getitem", \<^verbatim>\<open>False\<close> is \<^verbatim>\<open>continue\<close>.
\<close>

definition typemap_get :: "state \<Rightarrow> vname \<Rightarrow> error + nty" where
  "typemap_get st name =
     (case typemap st of
        None \<Rightarrow> Inl TypeError
      | Some tm \<Rightarrow> (case dict_get tm name of None \<Rightarrow> Inl KeyError | Some ty \<Rightarrow> Inr ty))"

definition conforming_getitem :: "helpers \<Rightarrow> state \<Rightarrow> vname \<Rightarrow> stmt \<Rightarrow> error + bool" where
  "conforming_getitem h st arg s =
     (case s of
        Assign (Expr (Getitem v i)) t \<Rightarrow>
          (case (if v \<noteq> arg
                 then (case get_definition h (func_ir st) (Var v) of
                         Inl e \<Rightarrow> Inl e
                       | Inr dfn \<Rightarrow>
                           (case args_attr dfn of
                              None \<Rightarrow> Inr False
                            | Some [] \<Rightarrow> Inr False
                            | Some (a # as) \<Rightarrow> Inr (a = arg)))
                 else Inr True) of
             Inl e \<Rightarrow> Inl e
           | Inr False \<Rightarrow> Inr False
           | Inr True \<Rightarrow>
               (case typemap_get st arg of
                  Inl e \<Rightarrow> Inl e
                | Inr target_ty \<Rightarrow> Inr (accepted_types target_ty)))
      | _ \<Rightarrow> Inr False)"

fun first_getitem :: "helpers \<Rightarrow> state \<Rightarrow> vname \<Rightarrow> stmt list \<Rightarrow> error + stmt option" where
  "first_getitem h st arg [] = Inr None"
| "first_getitem h st arg (s # ss) =
     (case conforming_getitem h st arg s of
        Inl e \<Rightarrow> Inl e
      | Inr True \<Rightarrow> Inr (Some s)
      | Inr False \<Rightarrow> first_getitem h st arg ss)"

text \<open>
  \<^verbatim>\<open>for lbl in loop.body\<close>: the search stops at the first block that has such a statement
  and gives that block's label with it.  This \<^verbatim>\<open>lbl\<close> is the same variable as the one
  of the loop over \<^verbatim>\<open>loops.items()\<close>.
\<close>

fun find_getitem :: "helpers \<Rightarrow> state \<Rightarrow> vname \<Rightarrow> label list \<Rightarrow> error + (label \<times> stmt) option" where
  "find_getitem h st arg [] = Inr None"
| "find_getitem h st arg (lbl # lbls) =
     (case get_block (func_ir st) lbl of
        Inl e \<Rightarrow> Inl e
      | Inr blk \<Rightarrow>
          (case first_getitem h st arg (body blk) of
             Inl e \<Rightarrow> Inl e
           | Inr (Some s) \<Rightarrow> Inr (Some (lbl, s))
           | Inr None \<Rightarrow> find_getitem h st arg lbls))"

record unroll_info =
  info_loop :: loop
  info_call :: irval
  info_arg :: vname
  info_getitem :: stmt

text \<open>What the scan of one loop does to the loop over \<^verbatim>\<open>loops.items()\<close>.\<close>

datatype scan =
    ScanRaise error
  | ScanReturnFalse
  | ScanContinue
  | ScanFound label unroll_info

text \<open>
  A global read through \<^verbatim>\<open>get_definition\<close> and compared by identity with a builtin:
  \<^verbatim>\<open>if not isinstance(g, ir.Global): continue\<close>, \<^verbatim>\<open>if g.value is not obj: continue\<close>.
\<close>

fun is_global_of :: "pyobj \<Rightarrow> irval \<Rightarrow> bool" where
  "is_global_of obj (Global n obj') = (obj' = obj)"
| "is_global_of obj x = False"

definition scan_marker ::
  "helpers \<Rightarrow> state \<Rightarrow> loop \<Rightarrow> irval \<Rightarrow> scan" where
  "scan_marker h st lp literal_unroll_call =
     (case func_attr literal_unroll_call of
        None \<Rightarrow> ScanContinue
      | Some f \<Rightarrow>
          (case get_definition h (func_ir st) (Var f) of
             Inl e \<Rightarrow> ScanRaise e
           | Inr fdef \<Rightarrow>
               (case value_attr fdef of
                  Inl e \<Rightarrow> ScanRaise e
                | Inr call_func \<Rightarrow>
                    if call_func \<noteq> Py (PRef PyLiteralUnroll) then ScanContinue
                    else
                      (case args_attr literal_unroll_call of
                         Some [arg] \<Rightarrow>
                           (case typemap_get st arg of
                              Inl e \<Rightarrow> ScanRaise e
                            | Inr ty \<Rightarrow>
                                if \<not> accepted_types ty then ScanRaise AssertionError
                                else
                                  (case find_getitem h st arg (loop_body lp) of
                                     Inl e \<Rightarrow> ScanRaise e
                                   | Inr None \<Rightarrow> ScanContinue
                                   | Inr (Some (lbl, s)) \<Rightarrow>
                                       ScanFound lbl
                                         \<lparr>info_loop = lp, info_call = literal_unroll_call,
                                          info_arg = arg, info_getitem = s\<rparr>))
                       | _ \<Rightarrow> ScanRaise AssertionError))))"

text \<open>
  \<^verbatim>\<open>f(x)\<close> where \<^verbatim>\<open>f\<close> is a global bound to the object: the call's first argument, or how
  the scan goes on without it.
\<close>

definition call_of_global ::
  "helpers \<Rightarrow> state \<Rightarrow> pyobj \<Rightarrow> irval \<Rightarrow> scan + vname" where
  "call_of_global h st obj x =
     (case x of
        Expr (Call f as) \<Rightarrow>
          (case get_definition h (func_ir st) (Var f) of
             Inl e \<Rightarrow> Inl (ScanRaise e)
           | Inr g \<Rightarrow>
               if \<not> is_global_of obj g then Inl ScanContinue
               else (case first_item as of Inl e \<Rightarrow> Inl (ScanRaise e) | Inr a \<Rightarrow> Inr a))
      | _ \<Rightarrow> Inl ScanContinue)"

definition scan_loop :: "helpers \<Rightarrow> state \<Rightarrow> loop \<Rightarrow> scan" where
  "scan_loop h st lp =
     (case get_block (func_ir st) (header lp) of
        Inl e \<Rightarrow> ScanRaise e
      | Inr hb \<Rightarrow>
          (case find_exprs ''iternext'' (body hb) of
             [Iternext v] \<Rightarrow>
               (case get_definition h (func_ir st) (Var v) of
                  Inl e \<Rightarrow> ScanContinue
                | Inr phi \<Rightarrow>
                    (case value_attr phi of
                       Inl e \<Rightarrow> ScanRaise e
                     | Inr phi_value \<Rightarrow>
                         (case get_definition h (func_ir st) phi_value of
                            Inl e \<Rightarrow> ScanRaise e
                          | Inr range_call \<Rightarrow>
                              (case call_of_global h st PyRange range_call of
                                 Inl r \<Rightarrow> r
                               | Inr range_arg \<Rightarrow>
                                   (case get_definition h (func_ir st) (Var range_arg) of
                                      Inl e \<Rightarrow> ScanRaise e
                                    | Inr len_call \<Rightarrow>
                                        (case call_of_global h st PyLen len_call of
                                           Inl r \<Rightarrow> r
                                         | Inr len_arg \<Rightarrow>
                                             (case get_definition h (func_ir st) (Var len_arg) of
                                                Inl e \<Rightarrow> ScanRaise e
                                              | Inr literal_unroll_call \<Rightarrow>
                                                  scan_marker h st lp literal_unroll_call)))))))
           | _ \<Rightarrow> ScanReturnFalse))"

text \<open>
  The loop over \<^verbatim>\<open>loops.items()\<close>: \<open>Inr None\<close> is the \<^verbatim>\<open>return False\<close> taken inside the
  loop, \<open>Inr (Some info)\<close> the dictionary \<^verbatim>\<open>literal_unroll_info\<close> at its end.
\<close>

fun scan_loops ::
  "helpers \<Rightarrow> state \<Rightarrow> (label, loop) dict \<Rightarrow> (label, unroll_info) dict \<Rightarrow>
     error + (label, unroll_info) dict option" where
  "scan_loops h st [] info = Inr (Some info)"
| "scan_loops h st ((lbl, lp) # rest) info =
     (case scan_loop h st lp of
        ScanRaise e \<Rightarrow> Inl e
      | ScanReturnFalse \<Rightarrow> Inr None
      | ScanContinue \<Rightarrow> scan_loops h st rest info
      | ScanFound l ui \<Rightarrow> scan_loops h st rest (dict_set info l ui))"

subsection \<open>Validation: no nesting\<close>

definition nesting_msg :: string where
  "nesting_msg = ''Nesting of literal_unroll is unsupported''"

definition nested_pair :: "(label \<times> unroll_info) \<times> (label \<times> unroll_info) \<Rightarrow> bool" where
  "nested_pair p =
     (case p of ((test_lbl, test_loop), (ref_lbl, ref_loop)) \<Rightarrow>
        test_lbl \<noteq> ref_lbl \<and>
        header (info_loop test_loop) \<in> set (loop_body (info_loop ref_loop)))"

definition validate_loops :: "state \<Rightarrow> (label, unroll_info) dict \<Rightarrow> error option" where
  "validate_loops st info =
     (case find nested_pair (List.product info info) of
        None \<Rightarrow> None
      | Some ((test_lbl, test_loop), ref) \<Rightarrow>
          (case get_block (func_ir st) (header (info_loop test_loop)) of
             Inl e \<Rightarrow> Some e
           | Inr blk \<Rightarrow> Some (UnsupportedError nesting_msg (loc blk))))"

subsection \<open>Unrolling one loop\<close>

text \<open>
  \<^verbatim>\<open>unroll_loop\<close>.  A raise comes with the state as it is at that moment, so that what a
  failed call has changed can be read off: \<open>Inl (e, st)\<close>.
\<close>

definition void :: nty where
  "void = Prim ''void''"

fun getitem_flags :: "helpers \<Rightarrow> state \<Rightarrow> vname \<Rightarrow> stmt list \<Rightarrow> error + bool list" where
  "getitem_flags h st arg [] = Inr []"
| "getitem_flags h st arg (s # ss) =
     (case conforming_getitem h st arg s of
        Inl e \<Rightarrow> Inl e
      | Inr b \<Rightarrow> (case getitem_flags h st arg ss of Inl e \<Rightarrow> Inl e | Inr bs \<Rightarrow> Inr (b # bs)))"

text \<open>
  Step 1: for the blocks of the loop body, in the order of \<^verbatim>\<open>loop.body\<close>, which statements
  go into \<^verbatim>\<open>tuple_getitem\<close>.
\<close>

fun collect_getitems ::
  "helpers \<Rightarrow> state \<Rightarrow> vname \<Rightarrow> label list \<Rightarrow> error + (label \<times> bool list) list" where
  "collect_getitems h st arg [] = Inr []"
| "collect_getitems h st arg (lbl # lbls) =
     (case get_block (func_ir st) lbl of
        Inl e \<Rightarrow> Inl e
      | Inr blk \<Rightarrow>
          (case getitem_flags h st arg (body blk) of
             Inl e \<Rightarrow> Inl e
           | Inr bs \<Rightarrow>
               (case collect_getitems h st arg lbls of
                  Inl e \<Rightarrow> Inl e
                | Inr rest \<Rightarrow> Inr ((lbl, bs) # rest))))"

definition flagged :: "stmt list \<Rightarrow> bool list \<Rightarrow> stmt list" where
  "flagged ss bs = map fst (filter snd (zip ss bs))"

definition tuple_getitems :: "blocks \<Rightarrow> (label \<times> bool list) list \<Rightarrow> stmt list" where
  "tuple_getitems blks found =
     concat (map (\<lambda>(lbl, bs). flagged (body (the (dict_get blks lbl))) bs) found)"

text \<open>Step 4: \<^verbatim>\<open>item.value = ir.Expr.typed_getitem(old.value, types.void, old.index)\<close>.\<close>

fun swap_getitem :: "stmt \<Rightarrow> stmt" where
  "swap_getitem (Assign (Expr (Getitem v i)) t) = Assign (Expr (TypedGetitem v void i)) t"
| "swap_getitem s = s"

definition swap_flagged :: "stmt list \<Rightarrow> bool list \<Rightarrow> stmt list" where
  "swap_flagged ss bs = map (\<lambda>(s, b). if b then swap_getitem s else s) (zip ss bs)"

definition swap_getitems :: "blocks \<Rightarrow> (label \<times> bool list) list \<Rightarrow> blocks" where
  "swap_getitems blks found =
     map (\<lambda>(lbl, blk).
            (case dict_get found lbl of
               None \<Rightarrow> (lbl, blk)
             | Some bs \<Rightarrow> (lbl, blk\<lparr>body := swap_flagged (body blk) bs\<rparr>)))
       blks"

fun getitem_index :: "stmt \<Rightarrow> vname" where
  "getitem_index (Assign (Expr (Getitem v i)) t) = i"
| "getitem_index s = []"

text \<open>\<^verbatim>\<open>func_ir._definitions[name][0]\<close>; the table is a \<^verbatim>\<open>defaultdict(list)\<close>.\<close>

definition first_definition :: "func_ir \<Rightarrow> vname \<Rightarrow> error + irval" where
  "first_definition ir name =
     (case dict_get (definitions ir) name of
        None \<Rightarrow> Inl IndexError
      | Some ds \<Rightarrow> first_item ds)"

definition no_getitem_msg :: string where
  "no_getitem_msg =
     ''Loop unrolling analysis has failed, there's no getitem in loop body that conforms to literal_unroll requirements.''"

text \<open>
  Step 6: the first label of the old body gets the first block of the unrolled body (in
  sorted label order), the other old body blocks are removed, the other unrolled blocks
  are added, and the true branch of the header goes to the replaced label.
\<close>

fun set_truebr :: "label \<Rightarrow> stmt \<Rightarrow> stmt" where
  "set_truebr l (Branch c t f) = Branch c l f"
| "set_truebr l s = s"

definition patch_blocks :: "blocks \<Rightarrow> label list \<Rightarrow> blocks \<Rightarrow> label \<Rightarrow> error + blocks" where
  "patch_blocks blks this_loop_body unroll header_block =
     (case this_loop_body of
        [] \<Rightarrow> Inl ValueError
      | replace # delete \<Rightarrow>
          (case sort (dict_keys unroll) of
             [] \<Rightarrow> Inl IndexError
           | first_lbl # other_lbls \<Rightarrow>
               (let b1 = dict_set blks replace (the (dict_get unroll first_lbl));
                    b2 = fold (\<lambda>d b. dict_pop b d) delete b1;
                    b3 = fold (\<lambda>k b. dict_set b k (the (dict_get unroll k))) other_lbls b2
                in (case dict_get b3 header_block of
                      None \<Rightarrow> Inl KeyError
                    | Some hb \<Rightarrow>
                        if body hb = [] then Inl IndexError
                        else Inr (dict_set b3 header_block
                               (hb\<lparr>body := butlast (body hb) @ [set_truebr replace (last (body hb))]\<rparr>))))))"

definition loop_blocks_of :: "blocks \<Rightarrow> label list \<Rightarrow> error + blocks" where
  "loop_blocks_of blks lbls =
     (if \<exists>x \<in> set lbls. dict_get blks x = None then Inl KeyError
      else Inr (map (\<lambda>x. (x, the (dict_get blks x))) lbls))"

definition set_blocks :: "state \<Rightarrow> blocks \<Rightarrow> state" where
  "set_blocks st blks = st\<lparr>func_ir := (func_ir st)\<lparr>blocks := blks\<rparr>\<rparr>"

text \<open>\<open>raising st m f\<close>: a raise of \<open>m\<close> happens in state \<open>st\<close>; otherwise go on with \<open>f\<close>.\<close>

definition raising :: "state \<Rightarrow> error + 'a \<Rightarrow> ('a \<Rightarrow> (error \<times> state) + 'b) \<Rightarrow> (error \<times> state) + 'b" where
  "raising st m f = (case m of Inl e \<Rightarrow> Inl (e, st) | Inr x \<Rightarrow> f x)"

text \<open>Steps 1 to 3: nothing is changed yet.\<close>

definition unroll_analyse ::
  "helpers \<Rightarrow> state \<Rightarrow> unroll_info \<Rightarrow>
     (error \<times> state) + ((label \<times> bool list) list \<times> (nty, nat list) dict \<times> blocks)" where
  "unroll_analyse h st loop_info =
     raising st (typemap_get st (info_arg loop_info)) (\<lambda>target_ty.
     if \<not> accepted_types target_ty then Inl (AssertionError, st) else
     raising st (collect_getitems h st (info_arg loop_info) (loop_body (info_loop loop_info)))
       (\<lambda>found.
     if tuple_getitems (blocks (func_ir st)) found = []
     then raising st (get_block (func_ir st) (header (info_loop loop_info)))
            (\<lambda>hb. Inl (CompilerError no_getitem_msg (loc hb), st))
     else
     raising st (first_definition (func_ir st)
                   (getitem_index (hd (tuple_getitems (blocks (func_ir st)) found))))
       (\<lambda>index.
     raising st (gen_switch h (analyse_tuple target_ty) index) (\<lambda>branches.
     Inr (found, analyse_tuple target_ty, branches)))))"

text \<open>Step 5: the loop blocks without the header, what must keep its name, the injection.\<close>

definition body_without_header :: "loop \<Rightarrow> label list" where
  "body_without_header lp = filter (\<lambda>l. l \<noteq> header lp) (loop_body lp)"

definition keep_names :: "helpers \<Rightarrow> blocks \<Rightarrow> label \<Rightarrow> vname list \<Rightarrow> vname list" where
  "keep_names h blks idx live =
     remdups (fst (compute_use_defs h blks idx) @ snd (compute_use_defs h blks idx) @ live)"

definition unroll_inject ::
  "helpers \<Rightarrow> state \<Rightarrow> loop \<Rightarrow> (nty, nat list) dict \<Rightarrow> blocks \<Rightarrow>
     (error \<times> state) + inject_state" where
  "unroll_inject h st1 lp switch_data branches =
     raising st1 (loop_blocks_of (blocks (func_ir st1)) (body_without_header lp))
       (\<lambda>loop_blocks.
     raising st1 (case dict_get (livemap (func_ir st1)) (header lp) of
                    None \<Rightarrow> Inl KeyError | Some live \<Rightarrow> Inr live) (\<lambda>live.
     raising st1 (max_label (blocks (func_ir st1))) (\<lambda>caller_max_label.
     raising st1 (inject_loop_body h branches loop_blocks caller_max_label
                    (keep_names h (blocks (func_ir st1)) (header lp) live) switch_data
                    (unique_var_count st1)) Inr)))"

definition unroll_loop :: "helpers \<Rightarrow> state \<Rightarrow> unroll_info \<Rightarrow> (error \<times> state) + state" where
  "unroll_loop h st loop_info =
     (case unroll_analyse h st loop_info of
        Inl es \<Rightarrow> Inl es
      | Inr (found, switch_data, branches) \<Rightarrow>
          (let st1 = set_blocks st (swap_getitems (blocks (func_ir st)) found) in
           case unroll_inject h st1 (info_loop loop_info) switch_data branches of
             Inl es \<Rightarrow> Inl es
           | Inr unrolled \<Rightarrow>
               raising (st1\<lparr>unique_var_count := counter unrolled\<rparr>)
                 (patch_blocks (blocks (func_ir st1)) (body_without_header (info_loop loop_info))
                    (switch_blocks unrolled) (header (info_loop loop_info)))
                 (\<lambda>blks. Inr (set_blocks (st1\<lparr>unique_var_count := counter unrolled\<rparr>) blks))))"

subsection \<open>The driver\<close>

text \<open>
  \<^verbatim>\<open>apply_transform\<close>: scan, validate, unroll the loop \<^verbatim>\<open>popitem()\<close> gives (the last
  entry), simplify, post-process, rebuild the definitions.  \<open>Inr (stat, st)\<close> is the
  return value with the state after the call.
\<close>

definition apply_transform :: "helpers \<Rightarrow> state \<Rightarrow> (error \<times> state) + (bool \<times> state)" where
  "apply_transform h st =
     (let loops = cfg_loops h (blocks (func_ir st)) in
      case scan_loops h st loops [] of
        Inl e \<Rightarrow> Inl (e, st)
      | Inr None \<Rightarrow> Inr (False, st)
      | Inr (Some literal_unroll_info) \<Rightarrow>
      if literal_unroll_info = [] then Inr (False, st) else
      case validate_loops st literal_unroll_info of
        Some e \<Rightarrow> Inl (e, st)
      | None \<Rightarrow>
      case unroll_loop h st (snd (last literal_unroll_info)) of
        Inl es \<Rightarrow> Inl es
      | Inr st1 \<Rightarrow>
      let st2 = set_blocks st1 (simplify_CFG h (blocks (func_ir st1)));
          st3 = st2\<lparr>func_ir := post_proc h (func_ir st2)\<rparr>;
          st4 = st3\<lparr>func_ir := (func_ir st3)\<lparr>definitions :=
                   build_definitions h (blocks (func_ir st3))\<rparr>\<rparr>
      in Inr (True, st4))"




section \<open>Example programs\<close>

text \<open>
  \<^verbatim>\<open>for a in unroll_marker(t): ...\<close> as the bytecode translation leaves it: the entry
  block 0 calls the marker and takes the iterator, the header 10 advances it, 20 is the
  body and 30 the exit.  The marker global is bound to \<^verbatim>\<open>literal_unroll\<close> under another
  name.
\<close>

definition iter_loop_blocks :: blocks where
  "iter_loop_blocks =
     [(0, \<lparr>body = [Assign (Arg ''t'' 0) ''t'',
                    Assign (Global ''unroll_marker'' PyLiteralUnroll) ''$g'',
                    Assign (Expr (Call ''$g'' [''t''])) ''$lu'',
                    Assign (Expr (Getiter ''$lu'')) ''$it'',
                    Assign (Var ''$it'') ''$phi'',
                    Jump 10], loc = 1\<rparr>),
      (10, \<lparr>body = [Assign (Expr (Iternext ''$phi'')) ''$n'',
                     Assign (Expr (PairFirst ''$n'')) ''$v'',
                     Assign (Expr (PairSecond ''$n'')) ''$ok'',
                     Branch ''$ok'' 20 30], loc = 2\<rparr>),
      (20, \<lparr>body = [Assign (Var ''$v'') ''a'', Jump 10], loc = 3\<rparr>),
      (30, \<lparr>body = [Return ''a''], loc = 4\<rparr>)]"

definition iter_loop_ir :: func_ir where
  "iter_loop_ir =
     \<lparr>blocks = iter_loop_blocks,
      definitions =
        [(''t'', [Arg ''t'' 0]),
         (''$g'', [Global ''unroll_marker'' PyLiteralUnroll]),
         (''$lu'', [Expr (Call ''$g'' [''t''])]),
         (''$it'', [Expr (Getiter ''$lu'')]),
         (''$phi'', [Var ''$it'']),
         (''$n'', [Expr (Iternext ''$phi'')]),
         (''$v'', [Expr (PairFirst ''$n'')]),
         (''$ok'', [Expr (PairSecond ''$n'')]),
         (''a'', [Var ''$v''])],
      livemap = []\<rparr>"

definition iter_loop :: loop where
  "iter_loop = \<lparr>header = 10, loop_body = [10, 20], entries = [0], exits = [30]\<rparr>"

text \<open>
  Collaborators for the examples: definitions are chased through the table, a tuple type
  is true when it has a slot.  What an example does not call is left unspecified.
\<close>

definition table_helpers :: helpers where
  "table_helpers =
     undefined\<lparr>get_definition := table_get_definition,
               type_truthy := (\<lambda>ty. iter_types ty \<noteq> [])\<rparr>"

text \<open>
  Modelled from the spec: \<^verbatim>\<open>build_definitions\<close> of \<^verbatim>\<open>numba/ir_utils.py\<close> (not under src/),
  the definition table: for every assigned variable the right-hand sides assigned to it,
  in block and statement order.
\<close>

definition block_definitions :: "blocks \<Rightarrow> (vname, irval list) dict" where
  "block_definitions blks =
     fold (\<lambda>s d. case s of Assign x t \<Rightarrow> defaultdict_append d t x | _ \<Rightarrow> d)
       (concat (map (\<lambda>(l, b). body b) blks)) []"

text \<open>
  The canonical form of a marked loop, \<^verbatim>\<open>for i in range(len(literal_unroll(t)))\<close>: the
  statements that make the iterator, and the loop header that advances it.  The suffix
  keeps the temporaries of two loops apart.
\<close>

definition marked_range_iter :: "string \<Rightarrow> stmt list" where
  "marked_range_iter x =
     [Assign (Global ''literal_unroll'' PyLiteralUnroll) (''$g'' @ x),
      Assign (Expr (Call (''$g'' @ x) [''t''])) (''$lu'' @ x),
      Assign (Global ''len'' PyLen) (''$len'' @ x),
      Assign (Expr (Call (''$len'' @ x) [''$lu'' @ x])) (''$n'' @ x),
      Assign (Global ''range'' PyRange) (''$range'' @ x),
      Assign (Expr (Call (''$range'' @ x) [''$n'' @ x])) (''$r'' @ x),
      Assign (Expr (Getiter (''$r'' @ x))) (''$it'' @ x),
      Assign (Var (''$it'' @ x)) (''$phi'' @ x)]"

definition iter_header :: "string \<Rightarrow> label \<Rightarrow> label \<Rightarrow> stmt list" where
  "iter_header x t f =
     [Assign (Expr (Iternext (''$phi'' @ x))) (''$nx'' @ x),
      Assign (Expr (PairFirst (''$nx'' @ x))) (''$i'' @ x),
      Assign (Expr (PairSecond (''$nx'' @ x))) (''$ok'' @ x),
      Branch (''$ok'' @ x) t f]"

text \<open>
  A marked loop over \<^verbatim>\<open>t\<close> (header 10, body 20) followed by a \<^verbatim>\<open>while\<close> loop (header
  30, body 40), whose header has no \<^verbatim>\<open>iternext\<close>:
  \<^verbatim>\<open>for a in literal_unroll(t): acc = a
  while acc: acc = 0
  return acc\<close>
\<close>

definition two_loops_blocks :: blocks where
  "two_loops_blocks =
     [(0, \<lparr>body = Assign (Arg ''t'' 0) ''t'' # marked_range_iter ''1'' @ [Jump 10], loc = 1\<rparr>),
      (10, \<lparr>body = iter_header ''1'' 20 30, loc = 2\<rparr>),
      (20, \<lparr>body = [Assign (Expr (Getitem ''$lu1'' ''$i1'')) ''a'',
                     Assign (Var ''a'') ''acc'',
                     Jump 10], loc = 3\<rparr>),
      (30, \<lparr>body = [Assign (Var ''acc'') ''$c'', Branch ''$c'' 40 50], loc = 4\<rparr>),
      (40, \<lparr>body = [Assign (Const (PInt 0)) ''acc'', Jump 30], loc = 5\<rparr>),
      (50, \<lparr>body = [Return ''acc''], loc = 6\<rparr>)]"

definition example_state :: "blocks \<Rightarrow> state" where
  "example_state blks =
     \<lparr>func_ir = \<lparr>blocks = blks, definitions = block_definitions blks, livemap = []\<rparr>,
      typemap = Some [(''t'', Tuple [Prim ''int64'', Prim ''float64''])],
      return_type = Some (Prim ''int64''), calltypes = Some [], unique_var_count = 0\<rparr>"

definition for_loop :: loop where
  "for_loop = \<lparr>header = 10, loop_body = [10, 20], entries = [0], exits = [30]\<rparr>"

definition while_loop :: loop where
  "while_loop = \<lparr>header = 30, loop_body = [30, 40], entries = [10], exits = [50]\<rparr>"

text \<open>
  The collaborators of an example: the loop analysis gives the loops listed, and the
  CFG simplification finds nothing to simplify.
\<close>

definition loops_helpers :: "(label, loop) dict \<Rightarrow> helpers" where
  "loops_helpers loops = table_helpers\<lparr>cfg_loops := (\<lambda>blks. loops), simplify_CFG := (\<lambda>blks. blks)\<rparr>"















section \<open>Theorems\<close>

subsection \<open>Return-code classification\<close>

text \<open>
  C9.  The return code of the inversion routine is classified three ways: a negative
  code calls the process-fatal routine, a positive code raises the user-visible error
  "Matrix is singular and cannot be inverted.", and zero returns normally.
\<close>

theorem inv_err_handler_three_way:
  "(sint r < 0 \<longrightarrow> inv_err_handler r = ProcessFatal) \<and>
   (0 < sint r \<longrightarrow>
      inv_err_handler r = LinAlgError ''Matrix is singular and cannot be inverted.'') \<and>
   (r = 0 \<longrightarrow> inv_err_handler r = Returned)"
  by (auto simp: inv_err_handler_def)

theorem inv_err_handler_three_way_witness:
  "sint (- 1 :: 32 word) < 0 \<and> inv_err_handler (- 1) = ProcessFatal \<and>
   0 < sint (3 :: 32 word) \<and>
   inv_err_handler 3 = LinAlgError ''Matrix is singular and cannot be inverted.'' \<and>
   inv_err_handler 0 = Returned"
  using inv_err_handler_three_way [of "- 1"] inv_err_handler_three_way [of 3]
    inv_err_handler_three_way [of 0]
  by simp

subsection \<open>Switch data and switch generation\<close>

lemma analyse_types_snoc:
  "analyse_types (xs @ [x]) = defaultdict_append (analyse_types xs) x (length xs)"
  by (simp add: analyse_types_def enumerate_append_eq)

lemma dict_set_map_keys:
  assumes "distinct ks"
  shows "dict_set (map (\<lambda>k. (k, g k)) ks) x v =
     (if x \<in> set ks then map (\<lambda>k. (k, if k = x then v else g k)) ks
      else map (\<lambda>k. (k, g k)) ks @ [(x, v)])"
  using assms by (induction ks) auto

lemma dict_get_map_keys:
  "dict_get (map (\<lambda>k. (k, g k)) ks) x = (if x \<in> set ks then Some (g x) else None)"
  by (induction ks) (auto simp: dict_get_def)

lemma analyse_types_eq:
  "analyse_types xs =
     map (\<lambda>k. (k, filter (\<lambda>i. xs ! i = k) [0..<length xs])) (rev (remdups (rev xs)))"
proof (induction xs rule: rev_induct)
  case Nil
  show ?case by (simp add: analyse_types_def)
next
  case (snoc x xs)
  have d: "distinct (rev (remdups (rev xs)))" by simp
  have f: "filter (\<lambda>i. (xs @ [x]) ! i = k) [0..<length xs] =
           filter (\<lambda>i. xs ! i = k) [0..<length xs]" for k
    by (rule filter_cong) (auto simp: nth_append)
  show ?case
    apply (simp add: analyse_types_snoc snoc.IH defaultdict_append_def dict_get_map_keys
        dict_set_map_keys[OF d] f)
    apply (auto simp: f nth_append intro!: filter_False[symmetric] simp: in_set_conv_nth)
    done
qed

lemma distinct_concat_classes:
  assumes "distinct ks" "distinct xs"
  shows "distinct (concat (map (\<lambda>k. filter (\<lambda>i. f i = k) xs) ks))"
  using assms by (induction ks) auto

lemma set_concat_classes:
  "set (concat (map (\<lambda>k. filter (\<lambda>i. f i = k) xs) ks)) = {i \<in> set xs. f i \<in> set ks}"
  by (induction ks) auto

lemma first_branch_classes:
  assumes "i \<in> set xs" "f i \<in> set ks"
  shows "\<exists>j<length ks. first_branch (map (\<lambda>k. filter (\<lambda>i. f i = k) xs) ks) i = Some j
            \<and> ks ! j = f i"
  using assms
proof (induction ks)
  case Nil
  then show ?case by simp
next
  case (Cons k ks)
  show ?case
  proof (cases "f i = k")
    case True
    with Cons.prems show ?thesis by auto
  next
    case False
    with Cons obtain j where "j < length ks"
      "first_branch (map (\<lambda>k. filter (\<lambda>i. f i = k) xs) ks) i = Some j" "ks ! j = f i"
      by auto
    with False show ?thesis by (intro exI[of _ "Suc j"]) auto
  qed
qed

lemma dict_get_nth_key:
  assumes "distinct (map fst d)" "i < length d"
  shows "dict_get d (fst (d ! i)) = Some (snd (d ! i))"
  using assms by (simp add: dict_get_def)

lemma map_nth_tl: "map (\<lambda>i. f (xs ! i)) [1..<length xs] = map f (tl xs)"
  by (auto simp: list_eq_iff_nth_eq nth_tl)

lemma gen_switch_src_branches:
  assumes "distinct (map fst d)" "d \<noteq> []"
  shows "gen_switch_src d = Inr \<lparr>if_indices = snd (hd d), elif_indices = map snd (tl d)\<rparr>"
proof -
  have "map (\<lambda>i. the (dict_get d (dict_keys d ! i))) [1..<length (dict_keys d)] =
        map (\<lambda>i. snd (d ! i)) [1..<length d]"
    using assms by (intro map_cong) (auto simp: dict_get_nth_key dict_keys_def)
  then have e: "map (\<lambda>i. the (dict_get d (dict_keys d ! i))) [1..<length (dict_keys d)] =
        map snd (tl d)"
    by (simp only: map_nth_tl)
  have h: "the (dict_get d (dict_keys d ! 0)) = snd (hd d)"
    using assms dict_get_nth_key[of d 0] by (simp add: hd_conv_nth dict_keys_def)
  have k: "dict_keys d \<noteq> []"
    using assms(2) by (simp add: dict_keys_def)
  show ?thesis
    unfolding gen_switch_src_def Let_def e h using k by simp
qed


lemma analyse_types_keys: "dict_keys (analyse_types xs) = rev (remdups (rev xs))"
  by (simp add: analyse_types_eq dict_keys_def comp_def)

lemma analyse_types_values:
  "map snd (analyse_types xs) =
     map (\<lambda>k. filter (\<lambda>i. xs ! i = k) [0..<length xs]) (rev (remdups (rev xs)))"
  by (simp add: analyse_types_eq comp_def)

text \<open>
  C3 (as amended).  For a container type with at least one slot, the type-to-indices map
  of \<^verbatim>\<open>analyse_tuple\<close> has distinct keys in first-occurrence order of the slot types, its
  index lists together hold every index \<open>0..N-1\<close> exactly once, and \<^verbatim>\<open>gen_switch\<close>
  generates one \<^verbatim>\<open>SENTINEL\<close> branch per key, in key order (the first key's list in the
  \<^verbatim>\<open>if\<close>, the others in the \<^verbatim>\<open>elif\<close>s); at every index below \<open>N\<close> the generated
  function takes the branch of that slot's type and never reaches the \<^verbatim>\<open>else\<close>.
\<close>

theorem switch_covers_indices:
  assumes "iter_types tup \<noteq> []"
  shows "distinct (dict_keys (analyse_tuple tup)) \<and>
     dict_keys (analyse_tuple tup) = rev (remdups (rev (iter_types tup))) \<and>
     distinct (concat (map snd (analyse_tuple tup))) \<and>
     set (concat (map snd (analyse_tuple tup))) = {0..<length (iter_types tup)} \<and>
     (\<exists>s. gen_switch_src (analyse_tuple tup) = Inr s \<and>
          switch_branches s = map snd (analyse_tuple tup) \<and>
          length (switch_branches s) = length (dict_keys (analyse_tuple tup)) \<and>
          (\<forall>i<length (iter_types tup). \<exists>j<length (dict_keys (analyse_tuple tup)).
              run_switch s i = Some j \<and> dict_keys (analyse_tuple tup) ! j = iter_types tup ! i))"
proof -
  define tys where "tys = iter_types tup"
  define d where "d = analyse_types tys"
  define ks where "ks = rev (remdups (rev tys))"
  have keys: "dict_keys d = ks"
    by (simp add: d_def ks_def analyse_types_keys)
  have vals: "map snd d = map (\<lambda>k. filter (\<lambda>i. tys ! i = k) [0..<length tys]) ks"
    by (simp add: d_def ks_def analyse_types_values)
  have dist: "distinct ks" and setks: "set ks = set tys"
    by (simp_all add: ks_def)
  have c1: "distinct (concat (map snd d))"
    unfolding vals by (rule distinct_concat_classes) (simp_all add: dist)
  have c2: "set (concat (map snd d)) = {0..<length tys}"
    unfolding vals set_concat_classes by (auto simp: setks)
  have ne: "d \<noteq> []"
    using assms keys setks by (auto simp: tys_def dict_keys_def)
  have dk: "distinct (map fst d)"
    using keys dist by (simp add: dict_keys_def)
  define s where "s = \<lparr>if_indices = snd (hd d), elif_indices = map snd (tl d)\<rparr>"
  have g: "gen_switch_src d = Inr s"
    unfolding s_def by (rule gen_switch_src_branches [OF dk ne])
  have br: "switch_branches s = map snd d"
    using ne by (cases d) (simp_all add: switch_branches_def s_def)
  have len: "length (switch_branches s) = length (dict_keys d)"
    by (simp add: br dict_keys_def)
  have sel: "\<exists>j<length (dict_keys d). run_switch s i = Some j \<and> dict_keys d ! j = tys ! i"
    if "i < length tys" for i
  proof -
    have "i \<in> set [0..<length tys]" "tys ! i \<in> set ks"
      using that by (simp_all add: setks)
    then show ?thesis
      using first_branch_classes [of i "[0..<length tys]" "\<lambda>i. tys ! i" ks]
      by (simp add: run_switch_def br vals keys)
  qed
  show ?thesis
    using keys dist c1 c2 g br len sel
    unfolding analyse_tuple_def tys_def [symmetric] d_def [symmetric] ks_def [symmetric]
    by blast
qed

theorem switch_covers_indices_witness:
  "iter_types (Tuple [Prim ''int64'', Prim ''float64'', Prim ''int64'']) \<noteq> [] \<and>
   dict_keys (analyse_tuple (Tuple [Prim ''int64'', Prim ''float64'', Prim ''int64''])) =
     [Prim ''int64'', Prim ''float64''] \<and>
   (\<exists>s. gen_switch_src (analyse_tuple (Tuple [Prim ''int64'', Prim ''float64'', Prim ''int64''])) = Inr s \<and>
        switch_branches s = [[0, 2], [1]] \<and> run_switch s 2 = Some 0)"
proof -
  let ?T = "Tuple [Prim ''int64'', Prim ''float64'', Prim ''int64'']"
  have h: "iter_types ?T \<noteq> []" by simp
  have a: "analyse_tuple ?T = [(Prim ''int64'', [0, 2]), (Prim ''float64'', [1])]"
    by (simp add: analyse_tuple_def analyse_types_def enumerate_eq_zip defaultdict_append_def
        dict_get_def upt_rec)
  from switch_covers_indices [OF h] obtain s where
    "gen_switch_src (analyse_tuple ?T) = Inr s" "switch_branches s = map snd (analyse_tuple ?T)"
    by blast
  then show ?thesis
    using h by (simp add: a dict_keys_def run_switch_def)
qed

text \<open>
  For the empty tuple type the map is empty and \<^verbatim>\<open>keys[0]\<close> raises: no switch is
  generated.
\<close>

theorem empty_tuple_switch_counterexample:
  "gen_switch_src (analyse_tuple (Tuple [])) = Inl IndexError"
  by (simp add: gen_switch_src_def analyse_tuple_def analyse_types_def dict_keys_def)

subsection \<open>Which loops the canonicaliser accepts\<close>

lemma find_exprs_iternext:
  "e \<in> set (find_exprs ''iternext'' ss) \<Longrightarrow> \<exists>v. e = Iternext v"
  by (induction "''iternext''" ss rule: find_exprs.induct) (auto split: if_splits elim: op.elims)

text \<open>
  C8.  Without a partial type map (\<^verbatim>\<open>if partial_typemap:\<close> is false: \<^verbatim>\<open>None\<close>, or a
  dictionary with no entry) the canonicaliser accepts exactly the loops whose header has
  one \<^verbatim>\<open>iternext\<close>, driven by a \<^verbatim>\<open>getiter\<close>, and which have one entry block, whatever is
  iterated.  With a partial type map it accepts exactly those of them whose \<^verbatim>\<open>getiter\<close>
  argument is a one-argument call of a global bound to the \<^verbatim>\<open>literal_unroll\<close> object,
  under whatever name \<open>n\<close>, and whose argument has a (true) \<^verbatim>\<open>Tuple\<close> or \<^verbatim>\<open>UniTuple\<close> type in
  the map.
\<close>

theorem assess_loop_accepts:
  "(\<not> dict_truthy tm \<longrightarrow>
      (assess_loop h lp ir tm = Inr True) =
      (\<exists>hb v pv. get_block ir (header lp) = Inr hb \<and>
         find_exprs ''iternext'' (body hb) = [Iternext v] \<and>
         get_definition h ir (Var v) = Inr (Expr (Getiter pv)) \<and>
         length (entries lp) = 1)) \<and>
   (dict_truthy tm \<longrightarrow>
      (assess_loop h lp ir tm = Inr True) =
      (\<exists>hb v pv f0 as0 f arg fv n ty.
         get_block ir (header lp) = Inr hb \<and>
         find_exprs ''iternext'' (body hb) = [Iternext v] \<and>
         get_definition h ir (Var v) = Inr (Expr (Getiter pv)) \<and>
         get_definition h ir (Var pv) = Inr (Expr (Call f0 as0)) \<and>
         get_definition h ir (Expr (Call f0 as0)) = Inr (Expr (Call f [arg])) \<and>
         get_definition h ir (Var f) = Inr fv \<and>
         get_definition h ir fv = Inr (Global n PyLiteralUnroll) \<and>
         dict_get (the tm) arg = Some ty \<and> type_truthy h ty \<and> accepted_types ty \<and>
         length (entries lp) = 1))"
proof (intro conjI impI)
  assume "\<not> dict_truthy tm"
  then show "(assess_loop h lp ir tm = Inr True) =
      (\<exists>hb v pv. get_block ir (header lp) = Inr hb \<and>
         find_exprs ''iternext'' (body hb) = [Iternext v] \<and>
         get_definition h ir (Var v) = Inr (Expr (Getiter pv)) \<and>
         length (entries lp) = 1)"
    by (auto simp: assess_loop_def split: sum.splits list.splits expr.splits irval.splits)
next
  assume "dict_truthy tm"
  then show "(assess_loop h lp ir tm = Inr True) =
      (\<exists>hb v pv f0 as0 f arg fv n ty.
         get_block ir (header lp) = Inr hb \<and>
         find_exprs ''iternext'' (body hb) = [Iternext v] \<and>
         get_definition h ir (Var v) = Inr (Expr (Getiter pv)) \<and>
         get_definition h ir (Var pv) = Inr (Expr (Call f0 as0)) \<and>
         get_definition h ir (Expr (Call f0 as0)) = Inr (Expr (Call f [arg])) \<and>
         get_definition h ir (Var f) = Inr fv \<and>
         get_definition h ir fv = Inr (Global n PyLiteralUnroll) \<and>
         dict_get (the tm) arg = Some ty \<and> type_truthy h ty \<and> accepted_types ty \<and>
         length (entries lp) = 1)"
    apply (simp add: assess_loop_def assess_typed_def accepted_calls_def length_Suc_conv
         split: sum.splits list.splits expr.splits irval.splits option.splits)
    apply (auto simp: length_Suc_conv)
    done
qed

lemmas iter_loop_example =
  iter_loop_def iter_loop_ir_def iter_loop_blocks_def table_helpers_def assess_loop_def
  assess_typed_def get_block_def dict_get_def table_get_definition_def dict_truthy_def
  accepted_calls_def

theorem assess_loop_accepts_witness:
  "\<not> dict_truthy (None :: (vname, nty) dict option) \<and>
   assess_loop table_helpers iter_loop iter_loop_ir None = Inr True \<and>
   dict_truthy (Some [(''t'', Tuple [Prim ''int64'', Prim ''float64''])]) \<and>
   assess_loop table_helpers iter_loop iter_loop_ir
     (Some [(''t'', Tuple [Prim ''int64'', Prim ''float64''])]) = Inr True \<and>
   (\<exists>fv n. get_definition table_helpers iter_loop_ir fv = Inr (Global n PyLiteralUnroll))"
proof -
  let ?tm = "Some [(''t'', Tuple [Prim ''int64'', Prim ''float64''])]"
  have a: "\<not> dict_truthy (None :: (vname, nty) dict option)"
    by (simp add: dict_truthy_def)
  have b: "dict_truthy ?tm"
    by (simp add: dict_truthy_def)
  have c: "assess_loop table_helpers iter_loop iter_loop_ir None = Inr True"
    by (simp add: iter_loop_example)
  have d: "assess_loop table_helpers iter_loop iter_loop_ir ?tm = Inr True"
    by (simp add: iter_loop_example)
  from assess_loop_accepts [of ?tm table_helpers iter_loop iter_loop_ir] b d
  have "\<exists>fv n. get_definition table_helpers iter_loop_ir fv = Inr (Global n PyLiteralUnroll)"
    by blast
  with a b c d show ?thesis by blast
qed

subsection \<open>The unroll driver on the examples\<close>

lemma two_loops_definitions:
  "block_definitions two_loops_blocks =
     [(''t'', [Arg ''t'' 0]),
      (''$g1'', [Global ''literal_unroll'' PyLiteralUnroll]),
      (''$lu1'', [Expr (Call ''$g1'' [''t''])]),
      (''$len1'', [Global ''len'' PyLen]),
      (''$n1'', [Expr (Call ''$len1'' [''$lu1''])]),
      (''$range1'', [Global ''range'' PyRange]),
      (''$r1'', [Expr (Call ''$range1'' [''$n1''])]),
      (''$it1'', [Expr (Getiter ''$r1'')]),
      (''$phi1'', [Var ''$it1'']),
      (''$nx1'', [Expr (Iternext ''$phi1'')]),
      (''$i1'', [Expr (PairFirst ''$nx1'')]),
      (''$ok1'', [Expr (PairSecond ''$nx1'')]),
      (''a'', [Expr (Getitem ''$lu1'' ''$i1'')]),
      (''acc'', [Var ''a'', Const (PInt 0)]),
      (''$c'', [Var ''acc''])]"
  by (simp add: block_definitions_def two_loops_blocks_def marked_range_iter_def iter_header_def
      defaultdict_append_def dict_get_def)

lemmas scan_eval = scan_loop_def scan_marker_def call_of_global_def get_block_def dict_get_def
  table_get_definition_def typemap_get_def conforming_getitem_def
  loops_helpers_def table_helpers_def

lemma scan_for_loop:
  "scan_loop (loops_helpers ls) (example_state two_loops_blocks) for_loop =
     ScanFound 20 \<lparr>info_loop = for_loop, info_call = Expr (Call ''$g1'' [''t'']), info_arg = ''t'',
                    info_getitem = Assign (Expr (Getitem ''$lu1'' ''$i1'')) ''a''\<rparr>"
  unfolding example_state_def two_loops_definitions
  by (simp add: scan_eval two_loops_blocks_def iter_header_def for_loop_def)

lemma scan_while_loop:
  "scan_loop (loops_helpers ls) (example_state two_loops_blocks) while_loop = ScanReturnFalse"
  unfolding example_state_def two_loops_definitions
  by (simp add: scan_eval two_loops_blocks_def iter_header_def while_loop_def)

lemma cfg_loops_loops_helpers: "cfg_loops (loops_helpers ls) blks = ls"
  by (simp add: loops_helpers_def)


text \<open>
  C6, for the unroller.  In the two-loop example the marked loop alone is found by the
  scan, but \<^verbatim>\<open>apply_transform\<close> returns \<^verbatim>\<open>False\<close> with the state untouched, whichever of
  the two loops \<^verbatim>\<open>loops.items()\<close> yields first: at the \<^verbatim>\<open>while\<close> loop, whose header has no
  \<^verbatim>\<open>iternext\<close>, the scan does \<^verbatim>\<open>return False\<close> where the other mismatches \<^verbatim>\<open>continue\<close>.
\<close>

theorem while_loop_stops_the_scan:
  "scan_loop (loops_helpers [(10, for_loop), (30, while_loop)]) (example_state two_loops_blocks)
     for_loop =
     ScanFound 20 \<lparr>info_loop = for_loop, info_call = Expr (Call ''$g1'' [''t'']), info_arg = ''t'',
                    info_getitem = Assign (Expr (Getitem ''$lu1'' ''$i1'')) ''a''\<rparr> \<and>
   apply_transform (loops_helpers [(10, for_loop), (30, while_loop)])
     (example_state two_loops_blocks) = Inr (False, example_state two_loops_blocks) \<and>
   apply_transform (loops_helpers [(30, while_loop), (10, for_loop)])
     (example_state two_loops_blocks) = Inr (False, example_state two_loops_blocks)"
  by (simp add: apply_transform_def cfg_loops_loops_helpers scan_for_loop scan_while_loop)

subsection \<open>The reset of the typing results\<close>






subsection \<open>Nested marked loops\<close>
























end
